theory Spec2Isabelle
  imports Main "HOL-Library.Product_Lexorder" "HOL-Library.Sublist" "HOL-Library.Multiset"
begin

section \<open>Python values and library calls used by cache.py\<close>

text \<open>
  The model follows cache.py under Python 3, which the module imports first
  (\<open>import _pickle\<close>): \<open>str\<close> is text, its characters here the code points below 256.

  The exceptions that can leave a function of cache.py. A function that can raise
  returns \<open>py_error + 'a\<close>, with \<open>Inl\<close> for the exception.
\<close>

datatype py_error = ValueError | TypeError | OverflowError | IndexError | AttributeError

text \<open>
  A naive \<open>datetime.datetime\<close> with whole seconds, as \<open>datetime.strptime\<close> builds it and
  as the sqlite3 adapter writes it into a TIMESTAMP column, in the text form
  \<open>YYYY-MM-DD HH:MM:SS\<close>.
\<close>

record datetime =
  year :: int
  month :: int
  day :: int
  hour :: int
  minute :: int
  second :: int

text \<open>
  The result of a call into the Python library: the functions used by the date codec
  return, raise ValueError or raise TypeError.
\<close>

datatype 'a raises = Returns 'a | Raises_ValueError | Raises_TypeError

text \<open>
  The library functions cache.py calls and does not define. They are parameters of the
  model:
  \<^item> \<open>datetime_strptime s\<close> is \<open>datetime.strptime(s, HTTPDATE_FORMAT)\<close>;
  \<^item> \<open>time_strptime s\<close> is \<open>datetime(*(time.strptime(s, HTTPDATE_FORMAT)[0:6]))\<close>;
  \<^item> \<open>strftime d\<close> is \<open>d.strftime(HTTPDATE_FORMAT)\<close>;
  \<^item> \<open>pickle_dumps\<close> and \<open>pickle_loads\<close> are \<open>cpickle.dumps(_, -1)\<close> and
    \<open>cpickle.loads\<close> on the values the application stores.
\<close>

record ('v, 'b) pylib =
  datetime_strptime :: "string \<Rightarrow> datetime raises"
  time_strptime :: "string \<Rightarrow> datetime raises"
  strftime :: "datetime \<Rightarrow> string raises"
  pickle_dumps :: "'v \<Rightarrow> 'b"
  pickle_loads :: "'b \<Rightarrow> 'v"

subsection \<open>String methods\<close>

text \<open>\<open>str.split(sep)\<close> for a one-character separator: never the empty list.\<close>

fun split_on :: "char \<Rightarrow> string \<Rightarrow> string list" where
  "split_on sep [] = [[]]"
| "split_on sep (c # cs) =
     (if c = sep then [] # split_on sep cs
      else (case split_on sep cs of
              [] \<Rightarrow> [[c]]
            | p # ps \<Rightarrow> (c # p) # ps))"

text \<open>
  The characters below 256 for which \<open>str.isspace\<close> holds: tab, line feed, vertical
  tab, form feed, carriage return, the four separators 0x1c to 0x1f, space, next line
  (0x85) and no-break space (0xa0).
\<close>

definition isspace :: "char \<Rightarrow> bool" where
  "isspace c \<longleftrightarrow>
     (let n = of_char c :: nat
      in (9 \<le> n \<and> n \<le> 13) \<or> (28 \<le> n \<and> n \<le> 32) \<or> n = 133 \<or> n = 160)"

definition lstrip :: "string \<Rightarrow> string" where
  "lstrip s = dropWhile isspace s"

definition rstrip :: "string \<Rightarrow> string" where
  "rstrip s = rev (dropWhile isspace (rev s))"

definition strip :: "string \<Rightarrow> string" where
  "strip s = rstrip (lstrip s)"

definition isdigit :: "char \<Rightarrow> bool" where
  "isdigit c \<longleftrightarrow> (let n = of_char c :: nat in 48 \<le> n \<and> n \<le> 57)"

definition digit_value :: "char \<Rightarrow> int" where
  "digit_value c = int (of_char c) - 48"

text \<open>
  The digits of an integer literal accepted by \<open>int(str)\<close>: decimal digits, with single
  underscores allowed between two digits.
\<close>

fun int_digits :: "string \<Rightarrow> bool" where
  "int_digits [] = False"
| "int_digits [c] = isdigit c"
| "int_digits (c # d # cs) =
     (isdigit c \<and> (if d = CHR ''_'' then int_digits cs else int_digits (d # cs)))"

definition digits_value :: "string \<Rightarrow> int" where
  "digits_value s = foldl (\<lambda>acc c. 10 * acc + digit_value c) 0 (filter isdigit s)"

text \<open>
  The digits after the sign: they must be an integer literal of at most 4300 digits, the
  default limit of the conversion from text, underscores not counted.
\<close>

definition int_literal :: "string \<Rightarrow> int option" where
  "int_literal s =
     (if int_digits s \<and> length (filter isdigit s) \<le> 4300 then Some (digits_value s)
      else None)"

text \<open>
  The whitespace that \<open>int\<close> skips around a number: that of \<open>str.isspace\<close> without
  the four separators 0x1c to 0x1f.
\<close>

definition int_space :: "char \<Rightarrow> bool" where
  "int_space c \<longleftrightarrow>
     (let n = of_char c :: nat in (9 \<le> n \<and> n \<le> 13) \<or> n = 32 \<or> n = 133 \<or> n = 160)"

definition int_strip :: "string \<Rightarrow> string" where
  "int_strip s = rev (dropWhile int_space (rev (dropWhile int_space s)))"

text \<open>
  \<open>int(s)\<close> for a string: surrounding whitespace is ignored, one sign is allowed, and
  anything else raises ValueError (here \<open>None\<close>).
\<close>

definition py_int :: "string \<Rightarrow> int option" where
  "py_int s =
     (case int_strip s of
        [] \<Rightarrow> None
      | c # cs \<Rightarrow>
          if c = CHR ''-'' then map_option uminus (int_literal cs)
          else if c = CHR ''+'' then int_literal cs
          else int_literal (c # cs))"

section \<open>Cache-Control directives\<close>

text \<open>A directive's value in the parsed dict: an \<open>int\<close>, or \<open>True\<close>.\<close>

datatype dval = DInt int | DTrue

type_synonym directives = "string \<rightharpoonup> dval"

text \<open>
  One step of the dict comprehension of \<open>_parse_cache_control\<close>:
  \<open>parts = directive.split("=")\<close>, the key is \<open>parts[0].strip()\<close> and the value
  \<open>int(parts[1]) if len(parts) > 1 else True\<close>.
\<close>

definition parse_directive :: "string \<Rightarrow> py_error + (string \<times> dval)" where
  "parse_directive directive =
     (let parts = split_on CHR ''='' directive in
      if length parts > 1
      then (case py_int (parts ! 1) of
              None \<Rightarrow> Inl ValueError
            | Some n \<Rightarrow> Inr (strip (hd parts), DInt n))
      else Inr (strip (hd parts), DTrue))"

text \<open>The comprehension over the directives, left to right; a later key overwrites.\<close>

fun collect_directives :: "string list \<Rightarrow> directives \<Rightarrow> py_error + directives" where
  "collect_directives [] m = Inr m"
| "collect_directives (t # ts) m =
     (case parse_directive t of
        Inl e \<Rightarrow> Inl e
      | Inr (k, v) \<Rightarrow> collect_directives ts (m(k \<mapsto> v)))"

text \<open>\<open>Cache._parse_cache_control\<close>.\<close>

definition parse_cache_control :: "string option \<Rightarrow> py_error + directives" where
  "parse_cache_control header =
     (case header of
        None \<Rightarrow> Inr Map.empty
      | Some h \<Rightarrow> collect_directives (split_on CHR '','' h) Map.empty)"

section \<open>The date codec\<close>

text \<open>
  \<open>httpdate_to_datetime\<close>. The handler of ValueError returns \<open>None\<close>; the handler of
  TypeError parses again with \<open>time.strptime\<close>, and what that call raises is raised from
  inside the handler, where the \<open>except ValueError\<close> clause of the same statement does not
  apply.
\<close>

definition httpdate_to_datetime ::
  "('v, 'b) pylib \<Rightarrow> string option \<Rightarrow> py_error + datetime option" where
  "httpdate_to_datetime lib input_date =
     (case input_date of
        None \<Rightarrow> Inr None
      | Some s \<Rightarrow>
          (case datetime_strptime lib s of
             Returns d \<Rightarrow> Inr (Some d)
           | Raises_TypeError \<Rightarrow>
               (case time_strptime lib s of
                  Returns d \<Rightarrow> Inr (Some d)
                | Raises_ValueError \<Rightarrow> Inl ValueError
                | Raises_TypeError \<Rightarrow> Inl TypeError)
           | Raises_ValueError \<Rightarrow> Inr None))"

text \<open>\<open>datetime_to_httpdate\<close>: both exceptions of \<open>strftime\<close> are caught.\<close>

definition datetime_to_httpdate :: "('v, 'b) pylib \<Rightarrow> datetime option \<Rightarrow> string option" where
  "datetime_to_httpdate lib input_date =
     (case input_date of
        None \<Rightarrow> None
      | Some d \<Rightarrow>
          (case strftime lib d of
             Returns s \<Rightarrow> Some s
           | Raises_ValueError \<Rightarrow> None
           | Raises_TypeError \<Rightarrow> None))"

section \<open>The table and its rows\<close>

text \<open>
  A row of the table \<open>data\<close>. \<open>uri\<close>, \<open>blob\<close> and \<open>http_date\<close> are declared NOT NULL; the
  other columns hold NULL as \<open>None\<close>. The blob is the pickled payload.
\<close>

record 'b row =
  uri :: string
  blob :: 'b
  http_date :: datetime
  age :: "int option"
  etag :: "string option"
  expires :: "datetime option"
  last_modified :: "datetime option"
  max_age :: "int option"
  immutable :: "int option"

text \<open>The table: its rows in rowid order.\<close>

type_synonym 'b table = "'b row list"

text \<open>
  The header mapping passed to \<open>set\<close> and \<open>touch\<close>, read with \<open>headers.get\<close> at six keys.
  Date-valued headers and the entity tag are text, \<open>age\<close> is an integer; a key that is
  missing is \<open>None\<close>.
\<close>

record headers =
  hdr_date :: "string option"
  hdr_cache_control :: "string option"
  hdr_age :: "int option"
  hdr_etag :: "string option"
  hdr_expires :: "string option"
  hdr_last_modified :: "string option"

text \<open>
  A value in a fetched row (\<open>sqlite3.Row\<close>), after the converters registered for the
  declared types BLOB and TIMESTAMP have run; \<open>Null\<close> is Python's \<open>None\<close>.
\<close>

datatype 'v sqlval = Null | Integer int | Text string | Timestamp datetime | Payload 'v

type_synonym 'v sqlrow = "(string \<times> 'v sqlval) list"

definition of_int_opt :: "int option \<Rightarrow> 'v sqlval" where
  "of_int_opt x = (case x of None \<Rightarrow> Null | Some n \<Rightarrow> Integer n)"

definition of_text_opt :: "string option \<Rightarrow> 'v sqlval" where
  "of_text_opt x = (case x of None \<Rightarrow> Null | Some s \<Rightarrow> Text s)"

definition of_timestamp_opt :: "datetime option \<Rightarrow> 'v sqlval" where
  "of_timestamp_opt x = (case x of None \<Rightarrow> Null | Some d \<Rightarrow> Timestamp d)"

text \<open>How a call of \<open>set\<close> or \<open>touch\<close> ends: it returns, or an exception leaves it.\<close>

datatype outcome =
    Returned
  | Raised py_error

text \<open>
  \<open>Cache._execute\<close> catches the IntegrityError of a statement, which is rolled back, and
  runs \<open>print(e.message)\<close>. An exception of Python 3 has no attribute \<open>message\<close>, so
  the handler raises AttributeError, and that is how the call ends.
\<close>

definition integrity_error_handler :: outcome where
  "integrity_error_handler = Raised AttributeError"

section \<open>SQL expressions of the queries\<close>

text \<open>
  Days from 1970-01-01 to a date of the proleptic Gregorian calendar, and the Unix time
  \<open>strftime('%s', t)\<close> of a timestamp.
\<close>

definition days_from_civil :: "int \<Rightarrow> int \<Rightarrow> int \<Rightarrow> int" where
  "days_from_civil y m d =
     (let y' = (if m \<le> 2 then y - 1 else y);
          era = y' div 400;
          yoe = y' - era * 400;
          doy = (153 * (if m > 2 then m - 3 else m + 9) + 2) div 5 + d - 1;
          doe = yoe * 365 + yoe div 4 - yoe div 100 + doy
      in era * 146097 + doe - 719468)"

definition unix_seconds :: "datetime \<Rightarrow> int" where
  "unix_seconds t =
     days_from_civil (year t) (month t) (day t) * 86400
       + hour t * 3600 + minute t * 60 + second t"

text \<open>
  A timestamp used as a number (an operand of \<open>-\<close>, or the condition of a \<open>WHEN\<close>): the
  text \<open>YYYY-MM-DD HH:MM:SS\<close> is converted by its longest numeric prefix, the year.
\<close>

definition numeric_prefix :: "datetime \<Rightarrow> int" where
  "numeric_prefix t = year t"

text \<open>A \<open>WHEN\<close> condition holds for a value that is not NULL and not zero.\<close>

definition sql_true :: "int option \<Rightarrow> bool" where
  "sql_true x = (case x of None \<Rightarrow> False | Some n \<Rightarrow> n \<noteq> 0)"

text \<open>The scalar \<open>max(X, Y)\<close>: NULL as soon as one argument is NULL.\<close>

definition sql_max :: "int option \<Rightarrow> int option \<Rightarrow> int option" where
  "sql_max x y =
     (case x of None \<Rightarrow> None
      | Some a \<Rightarrow> (case y of None \<Rightarrow> None | Some b \<Rightarrow> Some (max a b)))"

definition sql_minus :: "int option \<Rightarrow> int option \<Rightarrow> int option" where
  "sql_minus x y =
     (case x of None \<Rightarrow> None
      | Some a \<Rightarrow> (case y of None \<Rightarrow> None | Some b \<Rightarrow> Some (a - b)))"

text \<open>Division of two integers truncates toward zero; NULL for NULL or a zero divisor.\<close>

definition sql_div :: "int option \<Rightarrow> int \<Rightarrow> int option" where
  "sql_div x b =
     (case x of None \<Rightarrow> None
      | Some a \<Rightarrow> if b = 0 then None else Some (sgn a * sgn b * (\<bar>a\<bar> div \<bar>b\<bar>)))"

text \<open>\<open>X >= Y\<close>: NULL when an operand is NULL, else 1 or 0.\<close>

definition sql_ge :: "int option \<Rightarrow> int option \<Rightarrow> int option" where
  "sql_ge x y =
     (case x of None \<Rightarrow> None
      | Some a \<Rightarrow> (case y of None \<Rightarrow> None | Some b \<Rightarrow> Some (if a \<ge> b then 1 else 0)))"

text \<open>
  The left operand of the comparison in \<open>Cache.get\<close>:
  \<open>CASE WHEN max_age THEN max(age, max_age) ELSE CASE WHEN expires THEN expires - http_date
  ELSE cast((datetime('now') - last_modified) / 10 as int) END END\<close>.
\<close>

definition freshness_lifetime :: "datetime \<Rightarrow> 'b row \<Rightarrow> int option" where
  "freshness_lifetime now r =
     (if sql_true (max_age r) then sql_max (age r) (max_age r)
      else if sql_true (map_option numeric_prefix (expires r))
      then sql_minus (map_option numeric_prefix (expires r)) (Some (numeric_prefix (http_date r)))
      else sql_div (sql_minus (Some (numeric_prefix now))
                      (map_option numeric_prefix (last_modified r))) 10)"

text \<open>
  The right operand: \<open>strftime('%s', datetime('now')) - strftime('%s', http_date)\<close>.
\<close>

definition current_age :: "datetime \<Rightarrow> 'b row \<Rightarrow> int" where
  "current_age now r = unix_seconds now - unix_seconds (http_date r)"

text \<open>The column \<open>fresh\<close> of \<open>Cache.get\<close>: NULL, 0 or 1.\<close>

definition fresh :: "datetime \<Rightarrow> 'b row \<Rightarrow> int option" where
  "fresh now r = sql_ge (freshness_lifetime now r) (Some (current_age now r))"

text \<open>
  \<open>X LIKE Y\<close> with pattern \<open>Y\<close>: \<open>%\<close> matches any run of characters, \<open>_\<close> one character,
  and any other character matches itself, upper and lower case ASCII letters alike.
\<close>

text \<open>The code of a character, that of the lower case letter for \<open>A\<close> to \<open>Z\<close>.\<close>

definition ascii_lower :: "char \<Rightarrow> nat" where
  "ascii_lower c = (let n = of_char c :: nat in if 65 \<le> n \<and> n \<le> 90 then n + 32 else n)"

fun sql_like :: "string \<Rightarrow> string \<Rightarrow> bool" where
  "sql_like [] s = (s = [])"
| "sql_like (p # ps) [] = (p = CHR ''%'' \<and> sql_like ps [])"
| "sql_like (p # ps) (c # cs) =
     (if p = CHR ''%'' then sql_like ps (c # cs) \<or> sql_like (p # ps) cs
      else if p = CHR ''_'' then sql_like ps cs
      else ascii_lower p = ascii_lower c \<and> sql_like ps cs)"

text \<open>\<open>LIMIT n\<close>: a negative \<open>n\<close> is no limit.\<close>

definition sql_limit :: "int \<Rightarrow> 'a list \<Rightarrow> 'a list" where
  "sql_limit n xs = (if n < 0 then xs else take (nat n) xs)"

text \<open>
  The sort key of \<open>ORDER BY http_date\<close>: the texts \<open>YYYY-MM-DD HH:MM:SS\<close> compare as their
  fields do, from the year down.
\<close>

definition timestamp_key :: "datetime \<Rightarrow> int \<times> int \<times> int \<times> int \<times> int \<times> int" where
  "timestamp_key t = (year t, month t, day t, hour t, minute t, second t)"

text \<open>An integer bound to a statement must fit SQLite's 64-bit INTEGER.\<close>

definition fits_int64 :: "int option \<Rightarrow> bool" where
  "fits_int64 x = (case x of None \<Rightarrow> True | Some n \<Rightarrow> - (2 ^ 63) \<le> n \<and> n < 2 ^ 63)"

text \<open>A directive's value as bound to an INTEGER column: \<open>True\<close> is stored as 1.\<close>

definition dval_int :: "dval option \<Rightarrow> int option" where
  "dval_int x = (case x of None \<Rightarrow> None | Some DTrue \<Rightarrow> Some 1 | Some (DInt n) \<Rightarrow> Some n)"

section \<open>The operations of class Cache\<close>

text \<open>
  The columns selected by \<open>Cache.get\<close>:
  \<open>SELECT blob, last_modified, etag, immutable, CASE ... END >= ... AS fresh\<close>.
\<close>

definition select_get :: "('v, 'b) pylib \<Rightarrow> datetime \<Rightarrow> 'b row \<Rightarrow> 'v sqlrow" where
  "select_get lib now r =
     [(''blob'', Payload (pickle_loads lib (blob r))),
      (''last_modified'', of_timestamp_opt (last_modified r)),
      (''etag'', of_text_opt (etag r)),
      (''immutable'', of_int_opt (immutable r)),
      (''fresh'', of_int_opt (fresh now r))]"

text \<open>\<open>Cache.get\<close>: the row \<open>WHERE uri=?\<close>, fetched with \<open>fetchone\<close>.\<close>

definition get :: "('v, 'b) pylib \<Rightarrow> datetime \<Rightarrow> 'b table \<Rightarrow> string \<Rightarrow> 'v sqlrow option" where
  "get lib now t u = map_option (select_get lib now) (find (\<lambda>r. uri r = u) t)"

definition DEFAULT_MAX_AGE :: int where
  "DEFAULT_MAX_AGE = 60 * 60 * 24 * 365"

text \<open>The headers \<open>Cache.set\<close> uses when it is given none.\<close>

definition default_headers :: "('v, 'b) pylib \<Rightarrow> datetime \<Rightarrow> headers" where
  "default_headers lib now =
     \<lparr>hdr_date = datetime_to_httpdate lib (Some now),
      hdr_cache_control = Some ''immutable, max-age=31536000'',
      hdr_age = None, hdr_etag = None, hdr_expires = None, hdr_last_modified = None\<rparr>"

text \<open>
  \<open>REPLACE INTO data (...) VALUES (...)\<close>: an integer that does not fit 64 bits raises
  OverflowError when it is bound; a NULL \<open>http_date\<close> violates NOT NULL and the statement
  is rolled back and ends in the handler of \<open>_execute\<close>; otherwise the row of the same \<open>uri\<close> is deleted and the new row added.
\<close>

definition replace_into ::
  "'b table \<Rightarrow> string \<Rightarrow> 'b \<Rightarrow> datetime option \<Rightarrow> int option \<Rightarrow> string option \<Rightarrow>
     datetime option \<Rightarrow> datetime option \<Rightarrow> int option \<Rightarrow> int option \<Rightarrow> outcome \<times> 'b table" where
  "replace_into t u b d a e ex lm ma im =
     (if \<not> (fits_int64 a \<and> fits_int64 ma \<and> fits_int64 im) then (Raised OverflowError, t)
      else (case d of
              None \<Rightarrow> (integrity_error_handler, t)
            | Some date \<Rightarrow>
                (Returned,
                 filter (\<lambda>r. uri r \<noteq> u) t @
                   [\<lparr>uri = u, blob = b, http_date = date, age = a, etag = e, expires = ex,
                     last_modified = lm, max_age = ma, immutable = im\<rparr>])))"

text \<open>\<open>Cache.set\<close>.\<close>

definition set_entry ::
  "('v, 'b) pylib \<Rightarrow> datetime \<Rightarrow> 'b table \<Rightarrow> string \<Rightarrow> 'v \<Rightarrow> headers option \<Rightarrow>
     outcome \<times> 'b table" where
  "set_entry lib now t u content headers_arg =
     (let headers = (case headers_arg of None \<Rightarrow> default_headers lib now | Some h \<Rightarrow> h) in
      case parse_cache_control (hdr_cache_control headers) of
        Inl e \<Rightarrow> (Raised e, t)
      | Inr directives \<Rightarrow>
          if ''no-store'' \<in> dom directives then (Returned, t)
          else
            (case httpdate_to_datetime lib (hdr_date headers) of
               Inl e \<Rightarrow> (Raised e, t)
             | Inr d \<Rightarrow>
                 (case httpdate_to_datetime lib (hdr_expires headers) of
                    Inl e \<Rightarrow> (Raised e, t)
                  | Inr ex \<Rightarrow>
                      (case httpdate_to_datetime lib (hdr_last_modified headers) of
                         Inl e \<Rightarrow> (Raised e, t)
                       | Inr lm \<Rightarrow>
                           replace_into t u (pickle_dumps lib content) d (hdr_age headers)
                             (hdr_etag headers) ex lm
                             (dval_int (directives ''max-age''))
                             (dval_int (directives ''immutable''))))))"

text \<open>
  \<open>UPDATE data SET http_date=?, age=?, expires=?, last_modified=?, max_age=? WHERE uri=?\<close>:
  NOT NULL is checked on the rows that are updated, so a NULL \<open>http_date\<close> fails only when
  a row has this \<open>uri\<close>.
\<close>

definition update_data ::
  "'b table \<Rightarrow> datetime option \<Rightarrow> int option \<Rightarrow> datetime option \<Rightarrow> datetime option \<Rightarrow>
     int option \<Rightarrow> string \<Rightarrow> outcome \<times> 'b table" where
  "update_data t d a ex lm ma u =
     (if \<not> (fits_int64 a \<and> fits_int64 ma) then (Raised OverflowError, t)
      else if \<not> (\<exists>r \<in> set t. uri r = u) then (Returned, t)
      else (case d of
              None \<Rightarrow> (integrity_error_handler, t)
            | Some date \<Rightarrow>
                (Returned,
                 map (\<lambda>r. if uri r = u
                           then r\<lparr>http_date := date, age := a, expires := ex,
                                  last_modified := lm, max_age := ma\<rparr>
                           else r) t)))"

text \<open>\<open>Cache.touch\<close>.\<close>

definition touch :: "('v, 'b) pylib \<Rightarrow> 'b table \<Rightarrow> string \<Rightarrow> headers \<Rightarrow> outcome \<times> 'b table" where
  "touch lib t u headers =
     (case parse_cache_control (hdr_cache_control headers) of
        Inl e \<Rightarrow> (Raised e, t)
      | Inr directives \<Rightarrow>
          (case httpdate_to_datetime lib (hdr_date headers) of
             Inl e \<Rightarrow> (Raised e, t)
           | Inr d \<Rightarrow>
               (case httpdate_to_datetime lib (hdr_expires headers) of
                  Inl e \<Rightarrow> (Raised e, t)
                | Inr ex \<Rightarrow>
                    (case httpdate_to_datetime lib (hdr_last_modified headers) of
                       Inl e \<Rightarrow> (Raised e, t)
                     | Inr lm \<Rightarrow>
                         update_data t d (hdr_age headers) ex lm
                           (dval_int (directives ''max-age'')) u))))"

text \<open>\<open>Cache.delete\<close> and \<open>Cache.clear\<close>.\<close>

definition delete :: "'b table \<Rightarrow> string \<Rightarrow> 'b table" where
  "delete t u = filter (\<lambda>r. uri r \<noteq> u) t"

definition clear :: "'b table \<Rightarrow> 'b table" where
  "clear t = []"

text \<open>The columns of \<open>select *\<close>, in the order of the table's declaration.\<close>

definition select_star :: "('v, 'b) pylib \<Rightarrow> 'b row \<Rightarrow> 'v sqlrow" where
  "select_star lib r =
     [(''uri'', Text (uri r)),
      (''blob'', Payload (pickle_loads lib (blob r))),
      (''http_date'', Timestamp (http_date r)),
      (''age'', of_int_opt (age r)),
      (''etag'', of_text_opt (etag r)),
      (''expires'', of_timestamp_opt (expires r)),
      (''last_modified'', of_timestamp_opt (last_modified r)),
      (''max_age'', of_int_opt (max_age r)),
      (''immutable'', of_int_opt (immutable r))]"

text \<open>
  The LIKE function reads its operands as C strings, up to the first NUL, and fails on
  a pattern of more than 50000 bytes; a character from 128 on takes two bytes in UTF-8.
\<close>

definition c_string :: "string \<Rightarrow> string" where
  "c_string s = takeWhile (\<lambda>c. c \<noteq> CHR 0x00) s"

definition utf8_length :: "string \<Rightarrow> nat" where
  "utf8_length s = sum_list (map (\<lambda>c. if (of_char c :: nat) < 128 then 1 else 2) s)"

text \<open>The pattern \<open>'%{}%'.format(domain)\<close>, the argument \<open>domain\<close> being \<open>part\<close> here.\<close>

definition like_pattern :: "string \<Rightarrow> string" where
  "like_pattern part = ''%'' @ part @ ''%''"

text \<open>
  The rows of \<open>select * from data where uri like ? order by http_date limit ?\<close>. SQL
  leaves the order of rows with equal \<open>http_date\<close> open; SQLite reads the table in the
  order of its rows and keeps that order among equal keys.
\<close>

definition domain_rows :: "'b table \<Rightarrow> string \<Rightarrow> int \<Rightarrow> 'b row list" where
  "domain_rows t part limit =
     sql_limit limit
       (sort_key (\<lambda>r. timestamp_key (http_date r))
          (filter (\<lambda>r. sql_like (c_string (like_pattern part)) (c_string (uri r))) t))"

text \<open>
  \<open>Cache.domain\<close>, fetched with \<open>fetchall\<close>; the default of \<open>limit\<close> is 25. A limit
  beyond 64 bits raises OverflowError when it is bound. A pattern that is too long fails
  at the first row it is applied to, with an OperationalError that \<open>_execute\<close> catches;
  its handler ends in AttributeError like that of an integrity error.
\<close>

definition domain ::
  "('v, 'b) pylib \<Rightarrow> 'b table \<Rightarrow> string \<Rightarrow> int \<Rightarrow> py_error + 'v sqlrow list" where
  "domain lib t part limit =
     (if \<not> fits_int64 (Some limit) then Inl OverflowError
      else if t \<noteq> [] \<and> utf8_length (like_pattern part) > 50000 then Inl AttributeError
      else Inr (map (select_star lib) (domain_rows t part limit)))"

definition domain_default ::
  "('v, 'b) pylib \<Rightarrow> 'b table \<Rightarrow> string \<Rightarrow> py_error + 'v sqlrow list" where
  "domain_default lib t part = domain lib t part 25"

section \<open>Conditional request headers\<close>

text \<open>
  \<open>conditional_headers\<close>. \<open>row["etag"]\<close> and \<open>row["last_modified"]\<close> raise IndexError on a
  row without the column, and \<open>strftime\<close> exists only on a datetime.
\<close>

definition conditional_headers ::
  "('v, 'b) pylib \<Rightarrow> 'v sqlrow \<Rightarrow> py_error + (string \<rightharpoonup> 'v sqlval)" where
  "conditional_headers lib row =
     (case map_of row ''etag'' of
        None \<Rightarrow> Inl IndexError
      | Some e \<Rightarrow>
          (let headers = (if e \<noteq> Null then [''If-None-Match'' \<mapsto> e] else Map.empty) in
           case map_of row ''last_modified'' of
             None \<Rightarrow> Inl IndexError
           | Some Null \<Rightarrow> Inr headers
           | Some (Timestamp d) \<Rightarrow>
               Inr (headers(''If-Modified-Since'' \<mapsto>
                      of_text_opt (datetime_to_httpdate lib (Some d))))
           | Some _ \<Rightarrow> Inl AttributeError))"

section \<open>Example inputs\<close>

text \<open>The instant 2020-01-01 00:00:00, and the instants 30 and 61 seconds later.\<close>

definition T0 :: datetime where
  "T0 = \<lparr>year = 2020, month = 1, day = 1, hour = 0, minute = 0, second = 0\<rparr>"

definition T0_plus_30 :: datetime where
  "T0_plus_30 = \<lparr>year = 2020, month = 1, day = 1, hour = 0, minute = 0, second = 30\<rparr>"

definition T0_plus_61 :: datetime where
  "T0_plus_61 = \<lparr>year = 2020, month = 1, day = 1, hour = 0, minute = 1, second = 1\<rparr>"

text \<open>
  A library that knows one HTTP date, the text of \<open>T0\<close>, and rejects every other text with
  ValueError; payloads are strings, pickled to themselves.
\<close>

definition example_lib :: "(string, string) pylib" where
  "example_lib =
     \<lparr>datetime_strptime =
        (\<lambda>s. if s = ''Wed, 01 Jan 2020 00:00:00 GMT'' then Returns T0 else Raises_ValueError),
      time_strptime =
        (\<lambda>s. if s = ''Wed, 01 Jan 2020 00:00:00 GMT'' then Returns T0 else Raises_ValueError),
      strftime =
        (\<lambda>d. if d = T0 then Returns ''Wed, 01 Jan 2020 00:00:00 GMT'' else Raises_ValueError),
      pickle_dumps = (\<lambda>v. v),
      pickle_loads = (\<lambda>b. b)\<rparr>"

text \<open>
  The same library in an interpreter where \<open>datetime.strptime\<close> raises TypeError, the case
  the TypeError handler of \<open>httpdate_to_datetime\<close> is written for.
\<close>

definition fallback_lib :: "(string, string) pylib" where
  "fallback_lib = example_lib\<lparr>datetime_strptime := (\<lambda>s. Raises_TypeError)\<rparr>"

definition no_headers :: headers where
  "no_headers =
     \<lparr>hdr_date = None, hdr_cache_control = None, hdr_age = None, hdr_etag = None,
      hdr_expires = None, hdr_last_modified = None\<rparr>"

text \<open>The headers \<open>{date: T0, cache-control: "max-age=60"}\<close>.\<close>

definition headers_max_age_60 :: headers where
  "headers_max_age_60 =
     no_headers\<lparr>hdr_date := Some ''Wed, 01 Jan 2020 00:00:00 GMT'',
                hdr_cache_control := Some ''max-age=60''\<rparr>"

definition headers_no_store :: headers where
  "headers_no_store =
     no_headers\<lparr>hdr_date := Some ''Wed, 01 Jan 2020 00:00:00 GMT'',
                hdr_cache_control := Some ''max-age=60, no-store''\<rparr>"

text \<open>A stored row for the uri \<open>u\<close> with every column set, and headers with a date only.\<close>

definition stored_row :: "string row" where
  "stored_row =
     \<lparr>uri = ''u'', blob = ''v'', http_date = T0, age = Some 5, etag = Some ''tag'',
      expires = Some T0_plus_61, last_modified = Some T0, max_age = Some 60,
      immutable = Some 1\<rparr>"

definition headers_date_only :: headers where
  "headers_date_only = no_headers\<lparr>hdr_date := Some ''Wed, 01 Jan 2020 00:00:00 GMT''\<rparr>"

text \<open>A fetched row with the entity tag \<open>"v1"\<close>, quotes included, and no \<open>last_modified\<close>.\<close>

definition entry_v1 :: "string sqlrow" where
  "entry_v1 =
     [(''etag'', Text [CHR 0x22, CHR ''v'', CHR ''1'', CHR 0x22]), (''last_modified'', Null)]"

text \<open>
  Three stored rows, \<open>http://a.com/1\<close> of \<open>T0\<close>, \<open>http://a.com/2\<close> of thirty seconds
  later and \<open>http://b.com/1\<close> later still, in a table that holds them in another order.
\<close>

definition row_a1 :: "string row" where
  "row_a1 =
     \<lparr>uri = ''http://a.com/1'', blob = ''v1'', http_date = T0, age = None, etag = None,
      expires = None, last_modified = None, max_age = None, immutable = None\<rparr>"

definition row_a2 :: "string row" where
  "row_a2 =
     \<lparr>uri = ''http://a.com/2'', blob = ''v2'', http_date = T0_plus_30, age = None,
      etag = None, expires = None, last_modified = None, max_age = None, immutable = None\<rparr>"

definition row_b1 :: "string row" where
  "row_b1 =
     \<lparr>uri = ''http://b.com/1'', blob = ''v3'', http_date = T0_plus_61, age = None,
      etag = None, expires = None, last_modified = None, max_age = None, immutable = None\<rparr>"

definition three_rows :: "string table" where
  "three_rows = [row_b1, row_a2, row_a1]"

section \<open>The directive parser in the words of the specification\<close>

text \<open>
  The specification's parser: a directive is split on the first \<open>=\<close> into a name and an
  optional value, the name is trimmed, and a value, all the text after that \<open>=\<close>, is
  parsed as an integer.
\<close>

definition spec_parse_directive :: "string \<Rightarrow> py_error + (string \<times> dval)" where
  "spec_parse_directive directive =
     (let name = takeWhile (\<lambda>c. c \<noteq> CHR ''='') directive in
      case dropWhile (\<lambda>c. c \<noteq> CHR ''='') directive of
        [] \<Rightarrow> Inr (strip name, DTrue)
      | _ # v \<Rightarrow>
          (case py_int v of
             None \<Rightarrow> Inl ValueError
           | Some n \<Rightarrow> Inr (strip name, DInt n)))"

text \<open>
  The amended reading: the value is the text between the first \<open>=\<close> and the next one, or
  the end of the directive.
\<close>

definition amended_parse_directive :: "string \<Rightarrow> py_error + (string \<times> dval)" where
  "amended_parse_directive directive =
     (let name = takeWhile (\<lambda>c. c \<noteq> CHR ''='') directive in
      case dropWhile (\<lambda>c. c \<noteq> CHR ''='') directive of
        [] \<Rightarrow> Inr (strip name, DTrue)
      | _ # v \<Rightarrow>
          (case py_int (takeWhile (\<lambda>c. c \<noteq> CHR ''='') v) of
             None \<Rightarrow> Inl ValueError
           | Some n \<Rightarrow> Inr (strip name, DInt n)))"

text \<open>The mapping built from the directives with a given reading of one directive.\<close>

fun collect_with ::
  "(string \<Rightarrow> py_error + (string \<times> dval)) \<Rightarrow> string list \<Rightarrow> directives \<Rightarrow>
     py_error + directives" where
  "collect_with f [] m = Inr m"
| "collect_with f (t # ts) m =
     (case f t of
        Inl e \<Rightarrow> Inl e
      | Inr (k, v) \<Rightarrow> collect_with f ts (m(k \<mapsto> v)))"

definition spec_parse_cache_control :: "string option \<Rightarrow> py_error + directives" where
  "spec_parse_cache_control header =
     (case header of
        None \<Rightarrow> Inr Map.empty
      | Some h \<Rightarrow> collect_with spec_parse_directive (split_on CHR '','' h) Map.empty)"

definition amended_parse_cache_control :: "string option \<Rightarrow> py_error + directives" where
  "amended_parse_cache_control header =
     (case header of
        None \<Rightarrow> Inr Map.empty
      | Some h \<Rightarrow> collect_with amended_parse_directive (split_on CHR '','' h) Map.empty)"

section \<open>A model of pickle\<close>













section \<open>Properties\<close>

lemmas string_defs = strip_def lstrip_def rstrip_def isspace_def isdigit_def digits_value_def
  digit_value_def int_space_def int_strip_def int_literal_def py_int_def parse_directive_def
  parse_cache_control_def

lemmas example_defs = T0_def T0_plus_30_def T0_plus_61_def example_lib_def fallback_lib_def
  no_headers_def headers_max_age_60_def headers_no_store_def stored_row_def
  headers_date_only_def

lemmas sql_defs = sql_true_def sql_max_def sql_minus_def sql_div_def sql_ge_def
  freshness_lifetime_def current_age_def fresh_def numeric_prefix_def unix_seconds_def
  days_from_civil_def fits_int64_def dval_int_def of_int_opt_def of_text_opt_def
  of_timestamp_opt_def

subsection \<open>The directive parser\<close>

lemma parse_directive_key:
  "parse_directive d = Inr (k, v) \<Longrightarrow> k = strip (hd (split_on CHR ''='' d))"
  by (auto simp: parse_directive_def Let_def split: if_splits option.splits)

lemma collect_directives_dom:
  "collect_directives ds m = Inr m' \<Longrightarrow>
     dom m' = dom m \<union> (\<lambda>d. strip (hd (split_on CHR ''='' d))) ` set ds"
proof (induction ds arbitrary: m)
  case Nil
  then show ?case by simp
next
  case (Cons d ds)
  from Cons.prems obtain k v where kv: "parse_directive d = Inr (k, v)"
    and rest: "collect_directives ds (m(k \<mapsto> v)) = Inr m'"
    by (auto split: sum.splits)
  have k: "k = strip (hd (split_on CHR ''='' d))"
    using kv by (rule parse_directive_key)
  have "dom m' = dom (m(k \<mapsto> v)) \<union>
      (\<lambda>d. strip (hd (split_on CHR ''='' d))) ` set ds"
    by (rule Cons.IH[OF rest])
  also have "dom (m(k \<mapsto> v)) = insert k (dom m)"
    by simp
  finally show ?case using k by simp
qed

subsection \<open>Headers with no-store\<close>

text \<open>
  C2. When one of the comma-separated directives of the cache-control header has the name
  no-store, \<open>set\<close> leaves the table as it was, whether the call returns or the parser
  raises; and when the table had no row for the uri, a following \<open>get\<close> returns \<open>None\<close>.
\<close>

theorem set_entry_no_store:
  assumes "hdr_cache_control h = Some cc"
    and "\<exists>d \<in> set (split_on CHR '','' cc). strip (hd (split_on CHR ''='' d)) = ''no-store''"
  shows "snd (set_entry lib now t u v (Some h)) = t \<and>
         (find (\<lambda>r. uri r = u) t = None \<longrightarrow>
            get lib now' (snd (set_entry lib now t u v (Some h))) u = None)"
proof -
  have "snd (set_entry lib now t u v (Some h)) = t"
  proof (cases "parse_cache_control (hdr_cache_control h)")
    case (Inl e)
    then show ?thesis by (simp add: set_entry_def)
  next
    case (Inr ds)
    with assms(1) have "collect_directives (split_on CHR '','' cc) Map.empty = Inr ds"
      by (simp add: parse_cache_control_def)
    from collect_directives_dom[OF this] have
      "dom ds = (\<lambda>d. strip (hd (split_on CHR ''='' d))) ` set (split_on CHR '','' cc)"
      by simp
    moreover from assms(2) have
      "''no-store'' \<in> (\<lambda>d. strip (hd (split_on CHR ''='' d))) ` set (split_on CHR '','' cc)"
      by force
    ultimately have "''no-store'' \<in> dom ds"
      by simp
    with Inr show ?thesis by (simp add: set_entry_def)
  qed
  then show ?thesis by (simp add: get_def)
qed

theorem set_entry_no_store_witness:
  "hdr_cache_control headers_no_store = Some ''max-age=60, no-store'' \<and>
   (\<exists>d \<in> set (split_on CHR '','' ''max-age=60, no-store'').
      strip (hd (split_on CHR ''='' d)) = ''no-store'') \<and>
   find (\<lambda>r. uri r = ''u'') ([] :: string table) = None \<and>
   snd (set_entry example_lib T0 [] ''u'' ''v'' (Some headers_no_store)) = [] \<and>
   get example_lib T0_plus_30
     (snd (set_entry example_lib T0 [] ''u'' ''v'' (Some headers_no_store))) ''u'' = None"
proof -
  have h1: "hdr_cache_control headers_no_store = Some ''max-age=60, no-store''"
    by (simp add: example_defs)
  have h2: "\<exists>d \<in> set (split_on CHR '','' ''max-age=60, no-store'').
      strip (hd (split_on CHR ''='' d)) = ''no-store''"
    by (simp add: string_defs)
  have h3: "find (\<lambda>r. uri r = ''u'') ([] :: string table) = None"
    by simp
  from set_entry_no_store[OF h1 h2, of example_lib T0 "[]" "''u''" "''v''" T0_plus_30] h1 h2 h3
  show ?thesis by blast
qed

subsection \<open>Freshness\<close>

lemma set_entry_max_age_60:
  "set_entry example_lib T0 [] ''u'' ''v'' (Some headers_max_age_60) =
     (Returned,
      [\<lparr>uri = ''u'', blob = ''v'', http_date = T0, age = None, etag = None, expires = None,
        last_modified = None, max_age = Some 60, immutable = None\<rparr>])"
  by (simp add: set_entry_def replace_into_def httpdate_to_datetime_def string_defs
      example_defs sql_defs)

text \<open>
  C1. After \<open>set("u", v, {date: T0, cache-control: "max-age=60"})\<close> with no age header,
  \<open>get("u")\<close> thirty seconds after \<open>T0\<close> returns a row whose \<open>fresh\<close> is NULL, not 1:
  the stored \<open>age\<close> is NULL, so \<open>max(age, max_age)\<close> is NULL and so is the comparison.
\<close>

theorem get_fresh_null_without_age:
  "get example_lib T0_plus_30
     (snd (set_entry example_lib T0 [] ''u'' ''v'' (Some headers_max_age_60))) ''u'' =
     Some [(''blob'', Payload ''v''), (''last_modified'', Null), (''etag'', Null),
           (''immutable'', Null), (''fresh'', Null)]"
  unfolding set_entry_max_age_60 snd_conv
  by (simp add: get_def select_get_def sql_defs example_defs)

subsection \<open>The date codec\<close>

text \<open>
  C7. Where \<open>datetime.strptime\<close> raises TypeError, \<open>httpdate_to_datetime\<close> of a text
  that is not an HTTP date raises the ValueError of \<open>time.strptime\<close> instead of
  returning \<open>None\<close>.
\<close>

theorem httpdate_to_datetime_fallback_raises:
  "httpdate_to_datetime fallback_lib (Some ''yesterday'') = Inl ValueError"
  by (simp add: httpdate_to_datetime_def example_defs)

subsection \<open>touch\<close>

lemma update_data_frame:
  "list_all2 (\<lambda>r r'. uri r' = uri r \<and> blob r' = blob r \<and> etag r' = etag r \<and>
       immutable r' = immutable r \<and> (uri r \<noteq> u \<longrightarrow> r' = r)) t
     (snd (update_data t d a ex lm ma u))"
  by (auto simp: update_data_def list_all2_map2 list_all2_same split: option.splits)

lemma update_data_no_row:
  "\<not> (\<exists>r \<in> set t. uri r = u) \<Longrightarrow>
     update_data t d a ex lm ma u =
       (if fits_int64 a \<and> fits_int64 ma then Returned else Raised OverflowError, t)"
  by (simp add: update_data_def)

lemma parse_directive_error: "parse_directive d = Inl e \<Longrightarrow> e = ValueError"
  by (simp add: parse_directive_def Let_def split: if_splits option.splits)

lemma collect_directives_error: "collect_directives ds m = Inl e \<Longrightarrow> e = ValueError"
proof (induction ds arbitrary: m)
  case Nil
  then show ?case by simp
next
  case (Cons d ds)
  show ?case
  proof (cases "parse_directive d")
    case (Inl e')
    with Cons.prems have "e' = e" by simp
    with Inl show ?thesis by (simp add: parse_directive_error)
  next
    case (Inr kv)
    with Cons.prems have "collect_directives ds (m(fst kv \<mapsto> snd kv)) = Inl e"
      by (simp add: case_prod_beta)
    then show ?thesis by (rule Cons.IH)
  qed
qed

lemma parse_cache_control_error: "parse_cache_control header = Inl e \<Longrightarrow> e = ValueError"
  by (cases header) (simp_all add: parse_cache_control_def collect_directives_error)

lemma httpdate_to_datetime_error:
  "httpdate_to_datetime lib s = Inl e \<Longrightarrow> e \<noteq> AttributeError"
  by (auto simp: httpdate_to_datetime_def split: option.splits raises.splits)

lemma touch_cases:
  "(\<exists>e. e \<noteq> AttributeError \<and> touch lib t u h = (Raised e, t)) \<or>
   (\<exists>ds d ex lm.
      parse_cache_control (hdr_cache_control h) = Inr ds \<and>
      httpdate_to_datetime lib (hdr_date h) = Inr d \<and>
      httpdate_to_datetime lib (hdr_expires h) = Inr ex \<and>
      httpdate_to_datetime lib (hdr_last_modified h) = Inr lm \<and>
      touch lib t u h =
        update_data t d (hdr_age h) ex lm (dval_int (ds ''max-age'')) u)"
proof (cases "parse_cache_control (hdr_cache_control h)")
  case (Inl e)
  from parse_cache_control_error[OF this] have "e \<noteq> AttributeError"
    by simp
  with Inl show ?thesis by (simp add: touch_def)
next
  case ds: (Inr ds)
  show ?thesis
  proof (cases "httpdate_to_datetime lib (hdr_date h)")
    case (Inl e)
    with ds httpdate_to_datetime_error[OF Inl] show ?thesis by (simp add: touch_def)
  next
    case d: (Inr d)
    show ?thesis
    proof (cases "httpdate_to_datetime lib (hdr_expires h)")
      case (Inl e)
      with ds d httpdate_to_datetime_error[OF Inl] show ?thesis by (simp add: touch_def)
    next
      case ex: (Inr ex)
      show ?thesis
      proof (cases "httpdate_to_datetime lib (hdr_last_modified h)")
        case (Inl e)
        with ds d ex httpdate_to_datetime_error[OF Inl] show ?thesis
          by (simp add: touch_def)
      next
        case (Inr lm)
        with ds d ex show ?thesis by (simp add: touch_def)
      qed
    qed
  qed
qed

lemma touch_update:
  assumes "parse_cache_control (hdr_cache_control h) = Inr ds"
    and "httpdate_to_datetime lib (hdr_date h) = Inr d"
    and "httpdate_to_datetime lib (hdr_expires h) = Inr ex"
    and "httpdate_to_datetime lib (hdr_last_modified h) = Inr lm"
  shows "touch lib t u h = update_data t d (hdr_age h) ex lm (dval_int (ds ''max-age'')) u"
  using assms by (simp add: touch_def)

text \<open>
  C5. \<open>touch\<close> keeps the number and order of the rows, and in every row the columns
  \<open>uri\<close>, \<open>blob\<close>, \<open>etag\<close> and \<open>immutable\<close>; a row of another uri is kept whole. When no
  row has the uri, the table is unchanged and the call does not end in the handler of
  an integrity error, and it returns normally whenever the header values are computed and bound without an
  exception.
\<close>

theorem touch_frame:
  "list_all2 (\<lambda>r r'. uri r' = uri r \<and> blob r' = blob r \<and> etag r' = etag r \<and>
       immutable r' = immutable r \<and> (uri r \<noteq> u \<longrightarrow> r' = r)) t (snd (touch lib t u h)) \<and>
   (\<not> (\<exists>r \<in> set t. uri r = u) \<longrightarrow>
      snd (touch lib t u h) = t \<and> fst (touch lib t u h) \<noteq> Raised AttributeError) \<and>
   (\<not> (\<exists>r \<in> set t. uri r = u) \<and>
    parse_cache_control (hdr_cache_control h) = Inr ds \<and>
    httpdate_to_datetime lib (hdr_date h) = Inr d \<and>
    httpdate_to_datetime lib (hdr_expires h) = Inr ex \<and>
    httpdate_to_datetime lib (hdr_last_modified h) = Inr lm \<and>
    fits_int64 (hdr_age h) \<and> fits_int64 (dval_int (ds ''max-age'')) \<longrightarrow>
      touch lib t u h = (Returned, t))"
proof -
  have same: "list_all2 (\<lambda>r r'. uri r' = uri r \<and> blob r' = blob r \<and> etag r' = etag r \<and>
       immutable r' = immutable r \<and> (uri r \<noteq> u \<longrightarrow> r' = r)) t t"
    by (simp add: list_all2_same)
  have accepted: "touch lib t u h = (Returned, t)"
    if "\<not> (\<exists>r \<in> set t. uri r = u)"
      and "parse_cache_control (hdr_cache_control h) = Inr ds"
      and "httpdate_to_datetime lib (hdr_date h) = Inr d"
      and "httpdate_to_datetime lib (hdr_expires h) = Inr ex"
      and "httpdate_to_datetime lib (hdr_last_modified h) = Inr lm"
      and "fits_int64 (hdr_age h)" and "fits_int64 (dval_int (ds ''max-age''))"
    using that by (simp add: touch_update update_data_no_row)
  from touch_cases[of lib t u h] have
    "list_all2 (\<lambda>r r'. uri r' = uri r \<and> blob r' = blob r \<and> etag r' = etag r \<and>
       immutable r' = immutable r \<and> (uri r \<noteq> u \<longrightarrow> r' = r)) t (snd (touch lib t u h)) \<and>
     (\<not> (\<exists>r \<in> set t. uri r = u) \<longrightarrow>
        snd (touch lib t u h) = t \<and> fst (touch lib t u h) \<noteq> Raised AttributeError)"
  proof
    assume "\<exists>e. e \<noteq> AttributeError \<and> touch lib t u h = (Raised e, t)"
    then show ?thesis using same by auto
  next
    assume "\<exists>ds d ex lm.
      parse_cache_control (hdr_cache_control h) = Inr ds \<and>
      httpdate_to_datetime lib (hdr_date h) = Inr d \<and>
      httpdate_to_datetime lib (hdr_expires h) = Inr ex \<and>
      httpdate_to_datetime lib (hdr_last_modified h) = Inr lm \<and>
      touch lib t u h =
        update_data t d (hdr_age h) ex lm (dval_int (ds ''max-age'')) u"
    then obtain d a ex lm ma where eq: "touch lib t u h = update_data t d a ex lm ma u"
      by blast
    show ?thesis
      unfolding eq using update_data_frame[of u t d a ex lm ma]
      by (auto simp: update_data_no_row)
  qed
  with accepted show ?thesis by blast
qed

lemma httpdate_to_datetime_None [simp]: "httpdate_to_datetime lib None = Inr None"
  by (simp add: httpdate_to_datetime_def)

lemma parse_cache_control_None [simp]: "parse_cache_control None = Inr Map.empty"
  by (simp add: parse_cache_control_def)

theorem touch_frame_witness:
  "\<not> (\<exists>r \<in> set [stored_row]. uri r = ''w'') \<and>
   parse_cache_control (hdr_cache_control no_headers) = Inr Map.empty \<and>
   httpdate_to_datetime example_lib (hdr_date no_headers) = Inr None \<and>
   httpdate_to_datetime example_lib (hdr_expires no_headers) = Inr None \<and>
   httpdate_to_datetime example_lib (hdr_last_modified no_headers) = Inr None \<and>
   fits_int64 (hdr_age no_headers) \<and> fits_int64 (dval_int (Map.empty ''max-age'')) \<and>
   uri stored_row \<noteq> ''w'' \<and>
   touch example_lib [stored_row] ''w'' no_headers = (Returned, [stored_row])"
proof -
  have h: "\<not> (\<exists>r \<in> set [stored_row]. uri r = ''w'') \<and>
   parse_cache_control (hdr_cache_control no_headers) = Inr Map.empty \<and>
   httpdate_to_datetime example_lib (hdr_date no_headers) = Inr None \<and>
   httpdate_to_datetime example_lib (hdr_expires no_headers) = Inr None \<and>
   httpdate_to_datetime example_lib (hdr_last_modified no_headers) = Inr None \<and>
   fits_int64 (hdr_age no_headers) \<and> fits_int64 (dval_int (Map.empty ''max-age''))"
    by (simp add: example_defs sql_defs)
  have u: "uri stored_row \<noteq> ''w''"
    by (simp add: example_defs)
  from touch_frame[of "''w''" "[stored_row]" example_lib no_headers Map.empty None None None] h u
  show ?thesis by blast
qed

lemma update_data_row:
  assumes "\<exists>r \<in> set t. uri r = u" and "fits_int64 a" and "fits_int64 ma"
  shows "update_data t d a ex lm ma u =
     (case d of
        None \<Rightarrow> (Raised AttributeError, t)
      | Some date \<Rightarrow>
          (Returned,
           map (\<lambda>r. if uri r = u
                     then r\<lparr>http_date := date, age := a, expires := ex,
                            last_modified := lm, max_age := ma\<rparr>
                     else r) t))"
  using assms
  by (simp add: update_data_def integrity_error_handler_def split: option.splits)

lemma updated_uris:
  "map uri (map (\<lambda>r. if uri r = u
                     then r\<lparr>http_date := date, age := a, expires := ex,
                            last_modified := lm, max_age := ma\<rparr>
                     else r) t) = map uri t"
  by (induction t) simp_all

lemma updated_rows:
  assumes "r' \<in> set (map (\<lambda>r. if uri r = u
                     then r\<lparr>http_date := date, age := a, expires := ex,
                            last_modified := lm, max_age := ma\<rparr>
                     else r) t)" and "uri r' = u"
  shows "http_date r' = date \<and> age r' = a \<and> expires r' = ex \<and> last_modified r' = lm \<and>
     max_age r' = ma"
proof -
  from assms(1) obtain r where r: "r' = (if uri r = u
                     then r\<lparr>http_date := date, age := a, expires := ex,
                            last_modified := lm, max_age := ma\<rparr>
                     else r)"
    by (auto simp only: set_map)
  show ?thesis
  proof (cases "uri r = u")
    case True
    with r have "r' = r\<lparr>http_date := date, age := a, expires := ex,
                            last_modified := lm, max_age := ma\<rparr>"
      by simp
    then show ?thesis by simp
  next
    case False
    with r have "r' = r" by simp
    with False assms(2) show ?thesis by simp
  qed
qed

text \<open>
  C10, amended. On a table with a row for the uri, and headers whose values are computed
  and bound without an exception: when the date header parses to a timestamp, \<open>touch\<close>
  returns and the row's \<open>http_date\<close>, \<open>age\<close>, \<open>expires\<close>, \<open>last_modified\<close> and \<open>max_age\<close>
  are the values of the headers, NULL for \<open>age\<close>, \<open>expires\<close>, \<open>last-modified\<close> and
  \<open>max-age\<close> where the key is missing; when the date header is missing or is not a date,
  the update violates NOT NULL on \<open>http_date\<close> and the table is left as it was.
\<close>

theorem touch_overwrites:
  assumes "\<exists>r \<in> set t. uri r = u"
    and "parse_cache_control (hdr_cache_control h) = Inr ds"
    and "httpdate_to_datetime lib (hdr_date h) = Inr d"
    and "httpdate_to_datetime lib (hdr_expires h) = Inr ex"
    and "httpdate_to_datetime lib (hdr_last_modified h) = Inr lm"
    and "fits_int64 (hdr_age h)" and "fits_int64 (dval_int (ds ''max-age''))"
  shows "(case d of
            None \<Rightarrow> touch lib t u h = (Raised AttributeError, t)
          | Some date \<Rightarrow>
              fst (touch lib t u h) = Returned \<and>
              map uri (snd (touch lib t u h)) = map uri t \<and>
              (\<forall>r' \<in> set (snd (touch lib t u h)). uri r' = u \<longrightarrow>
                 http_date r' = date \<and> age r' = hdr_age h \<and> expires r' = ex \<and>
                 last_modified r' = lm \<and> max_age r' = dval_int (ds ''max-age'') \<and>
                 (hdr_age h = None \<longrightarrow> age r' = None) \<and>
                 (hdr_expires h = None \<longrightarrow> expires r' = None) \<and>
                 (hdr_last_modified h = None \<longrightarrow> last_modified r' = None) \<and>
                 (ds ''max-age'' = None \<longrightarrow> max_age r' = None)))"
proof -
  have eq: "touch lib t u h = update_data t d (hdr_age h) ex lm (dval_int (ds ''max-age'')) u"
    using assms(2-5) by (rule touch_update)
  have ex_none: "ex = None" if "hdr_expires h = None"
    using assms(4) that by simp
  have lm_none: "lm = None" if "hdr_last_modified h = None"
    using assms(5) that by simp
  have ma_none: "dval_int (ds ''max-age'') = None" if "ds ''max-age'' = None"
    using that by (simp add: dval_int_def)
  note row = update_data_row[OF assms(1) assms(6) assms(7), of d ex lm]
  show ?thesis
  proof (cases d)
    case None
    with eq row show ?thesis by simp
  next
    case (Some date)
    let ?t' = "map (\<lambda>r. if uri r = u
                     then r\<lparr>http_date := date, age := hdr_age h, expires := ex,
                            last_modified := lm, max_age := dval_int (ds ''max-age'')\<rparr>
                     else r) t"
    have res: "touch lib t u h = (Returned, ?t')"
      using eq row Some by simp
    have fields: "http_date r' = date \<and> age r' = hdr_age h \<and> expires r' = ex \<and>
        last_modified r' = lm \<and> max_age r' = dval_int (ds ''max-age'') \<and>
        (hdr_age h = None \<longrightarrow> age r' = None) \<and>
        (hdr_expires h = None \<longrightarrow> expires r' = None) \<and>
        (hdr_last_modified h = None \<longrightarrow> last_modified r' = None) \<and>
        (ds ''max-age'' = None \<longrightarrow> max_age r' = None)"
      if "r' \<in> set ?t'" and "uri r' = u" for r'
      using updated_rows[OF that] ex_none lm_none ma_none by simp
    have "fst (touch lib t u h) = Returned"
      by (simp only: res fst_conv)
    moreover have "map uri (snd (touch lib t u h)) = map uri t"
      by (simp only: res snd_conv updated_uris)
    moreover have "\<forall>r' \<in> set (snd (touch lib t u h)). uri r' = u \<longrightarrow>
        http_date r' = date \<and> age r' = hdr_age h \<and> expires r' = ex \<and>
        last_modified r' = lm \<and> max_age r' = dval_int (ds ''max-age'') \<and>
        (hdr_age h = None \<longrightarrow> age r' = None) \<and>
        (hdr_expires h = None \<longrightarrow> expires r' = None) \<and>
        (hdr_last_modified h = None \<longrightarrow> last_modified r' = None) \<and>
        (ds ''max-age'' = None \<longrightarrow> max_age r' = None)"
      unfolding res snd_conv using fields by blast
    ultimately show ?thesis
      by (simp only: Some option.case) 
  qed
qed

text \<open>
  C10 as stated fails: with no header at all, the row keeps its \<open>http_date\<close> and its
  \<open>age\<close>, although both keys are missing.
\<close>

theorem touch_keeps_row_without_date:
  "touch example_lib [stored_row] ''u'' no_headers = (Raised AttributeError, [stored_row]) \<and>
   hdr_age no_headers = None \<and> age stored_row = Some 5"
  by (simp add: touch_def update_data_def integrity_error_handler_def example_defs sql_defs)

theorem touch_overwrites_witness:
  "(\<exists>r \<in> set [stored_row]. uri r = ''u'') \<and>
   parse_cache_control (hdr_cache_control headers_date_only) = Inr Map.empty \<and>
   httpdate_to_datetime example_lib (hdr_date headers_date_only) = Inr (Some T0) \<and>
   httpdate_to_datetime example_lib (hdr_expires headers_date_only) = Inr None \<and>
   httpdate_to_datetime example_lib (hdr_last_modified headers_date_only) = Inr None \<and>
   fits_int64 (hdr_age headers_date_only) \<and> fits_int64 (dval_int (Map.empty ''max-age'')) \<and>
   fst (touch example_lib [stored_row] ''u'' headers_date_only) = Returned \<and>
   map uri (snd (touch example_lib [stored_row] ''u'' headers_date_only)) = [''u''] \<and>
   map http_date (snd (touch example_lib [stored_row] ''u'' headers_date_only)) = [T0] \<and>
   map age (snd (touch example_lib [stored_row] ''u'' headers_date_only)) = [None] \<and>
   map expires (snd (touch example_lib [stored_row] ''u'' headers_date_only)) = [None] \<and>
   map last_modified (snd (touch example_lib [stored_row] ''u'' headers_date_only)) = [None] \<and>
   map max_age (snd (touch example_lib [stored_row] ''u'' headers_date_only)) = [None]"
proof -
  have h1: "\<exists>r \<in> set [stored_row]. uri r = ''u''"
    by (simp add: stored_row_def)
  have h2: "parse_cache_control (hdr_cache_control headers_date_only) = Inr Map.empty"
    by (simp add: headers_date_only_def no_headers_def)
  have h3: "httpdate_to_datetime example_lib (hdr_date headers_date_only) = Inr (Some T0)"
    by (simp add: headers_date_only_def no_headers_def httpdate_to_datetime_def example_lib_def)
  have h4: "httpdate_to_datetime example_lib (hdr_expires headers_date_only) = Inr None"
    by (simp add: headers_date_only_def no_headers_def)
  have h5: "httpdate_to_datetime example_lib (hdr_last_modified headers_date_only) = Inr None"
    by (simp add: headers_date_only_def no_headers_def)
  have h6: "fits_int64 (hdr_age headers_date_only)"
    by (simp add: headers_date_only_def no_headers_def fits_int64_def)
  have h7: "fits_int64 (dval_int (Map.empty ''max-age''))"
    by (simp add: fits_int64_def dval_int_def)
  have a: "hdr_age headers_date_only = None"
    by (simp add: headers_date_only_def no_headers_def)
  have m: "dval_int (Map.empty ''max-age'') = None"
    by (simp add: dval_int_def)
  let ?t = "snd (touch example_lib [stored_row] ''u'' headers_date_only)"
  from touch_overwrites[OF h1 h2 h3 h4 h5 h6 h7]
  have ret: "fst (touch example_lib [stored_row] ''u'' headers_date_only) = Returned"
    and uris: "map uri ?t = map uri [stored_row]"
    and fields: "\<forall>r' \<in> set ?t. uri r' = ''u'' \<longrightarrow>
        http_date r' = T0 \<and> age r' = None \<and> expires r' = None \<and> last_modified r' = None \<and>
        max_age r' = None"
    by (simp_all add: a m)
  from uris have u1: "map uri ?t = [''u'']"
    by (simp add: stored_row_def)
  then obtain r' where t: "?t = [r']" and ur: "uri r' = ''u''"
    by (auto simp only: map_eq_Cons_conv map_is_Nil_conv)
  from fields t ur have f: "http_date r' = T0 \<and> age r' = None \<and> expires r' = None \<and>
      last_modified r' = None \<and> max_age r' = None"
    by simp
  have "map http_date ?t = [T0]" and "map age ?t = [None]" and "map expires ?t = [None]"
    and "map last_modified ?t = [None]" and "map max_age ?t = [None]"
    using f by (simp_all only: t list.map)
  with h1 h2 h3 h4 h5 h6 h7 ret u1 show ?thesis
    by (intro conjI)
qed

subsection \<open>get\<close>

text \<open>
  C6 as stated fails: the row returned for a stored uri has the columns \<open>blob\<close>,
  \<open>last_modified\<close>, \<open>etag\<close>, \<open>immutable\<close> and \<open>fresh\<close> only; it has no \<open>http_date\<close>.
\<close>

theorem get_lacks_http_date:
  "map_option (map fst) (get example_lib T0_plus_30 [stored_row] ''u'') =
     Some [''blob'', ''last_modified'', ''etag'', ''immutable'', ''fresh''] \<and>
   map_option (\<lambda>row. map_of row ''http_date'') (get example_lib T0_plus_30 [stored_row] ''u'') =
     Some None"
  by (simp add: get_def select_get_def stored_row_def)

lemma sql_ge_range: "sql_ge x y \<in> {None, Some 0, Some 1}"
  by (simp add: sql_ge_def split: option.splits)

lemma fresh_range: "of_int_opt (fresh now r) \<in> {Null, Integer 0, Integer 1}"
  using sql_ge_range[of "freshness_lifetime now r" "Some (current_age now r)"]
  unfolding fresh_def of_int_opt_def
  by (cases "sql_ge (freshness_lifetime now r) (Some (current_age now r))") simp_all

lemma find_Some_mem: "find P xs = Some x \<Longrightarrow> x \<in> set xs \<and> P x"
  by (induction xs) (simp_all split: if_splits)

lemma find_None_iff_uri: "find (\<lambda>r. uri r = u) t = None \<longleftrightarrow> u \<notin> uri ` set t"
  by (auto simp: find_None_iff)

text \<open>
  C6, amended. For a uri with no row, \<open>get\<close> returns \<open>None\<close>. For a uri with a row, it
  returns five columns of a row of this uri: the unpickled \<open>blob\<close>, \<open>last_modified\<close>,
  \<open>etag\<close>, \<open>immutable\<close>, and \<open>fresh\<close>, which is NULL, 0 or 1.
\<close>

theorem get_partial_entry:
  "(u \<notin> uri ` set t \<longrightarrow> get lib now t u = None) \<and>
   (u \<in> uri ` set t \<longrightarrow>
      (\<exists>r \<in> set t. \<exists>f \<in> {Null, Integer 0, Integer 1}. uri r = u \<and>
         get lib now t u =
           Some [(''blob'', Payload (pickle_loads lib (blob r))),
                 (''last_modified'', of_timestamp_opt (last_modified r)),
                 (''etag'', of_text_opt (etag r)),
                 (''immutable'', of_int_opt (immutable r)),
                 (''fresh'', f)]))"
proof (intro conjI impI)
  assume "u \<notin> uri ` set t"
  then show "get lib now t u = None"
    by (simp add: get_def find_None_iff_uri)
next
  assume "u \<in> uri ` set t"
  then have "find (\<lambda>r. uri r = u) t \<noteq> None"
    by (simp only: find_None_iff_uri not_not)
  then obtain r where r: "find (\<lambda>r. uri r = u) t = Some r"
    by (auto simp only: not_None_eq)
  from find_Some_mem[OF r] have mem: "r \<in> set t" and ur: "uri r = u"
    by simp_all
  have g: "get lib now t u =
           Some [(''blob'', Payload (pickle_loads lib (blob r))),
                 (''last_modified'', of_timestamp_opt (last_modified r)),
                 (''etag'', of_text_opt (etag r)),
                 (''immutable'', of_int_opt (immutable r)),
                 (''fresh'', of_int_opt (fresh now r))]"
    using r by (simp add: get_def select_get_def)
  show "\<exists>r \<in> set t. \<exists>f \<in> {Null, Integer 0, Integer 1}. uri r = u \<and>
         get lib now t u =
           Some [(''blob'', Payload (pickle_loads lib (blob r))),
                 (''last_modified'', of_timestamp_opt (last_modified r)),
                 (''etag'', of_text_opt (etag r)),
                 (''immutable'', of_int_opt (immutable r)),
                 (''fresh'', f)]"
  proof (rule bexI[OF _ mem], rule bexI[OF _ fresh_range], rule conjI)
    show "uri r = u" by (rule ur)
    show "get lib now t u =
           Some [(''blob'', Payload (pickle_loads lib (blob r))),
                 (''last_modified'', of_timestamp_opt (last_modified r)),
                 (''etag'', of_text_opt (etag r)),
                 (''immutable'', of_int_opt (immutable r)),
                 (''fresh'', of_int_opt (fresh now r))]"
      by (rule g)
  qed
qed

theorem get_partial_entry_witness:
  "''w'' \<notin> uri ` set [stored_row] \<and> get example_lib T0_plus_30 [stored_row] ''w'' = None \<and>
   ''u'' \<in> uri ` set [stored_row] \<and>
   (\<exists>r \<in> set [stored_row]. \<exists>f \<in> {Null, Integer 0, Integer 1}. uri r = ''u'' \<and>
      get example_lib T0_plus_30 [stored_row] ''u'' =
        Some [(''blob'', Payload (pickle_loads example_lib (blob r))),
              (''last_modified'', of_timestamp_opt (last_modified r)),
              (''etag'', of_text_opt (etag r)),
              (''immutable'', of_int_opt (immutable r)),
              (''fresh'', f)])"
proof -
  have w: "''w'' \<notin> uri ` set [stored_row]"
    by (simp add: stored_row_def)
  have u: "''u'' \<in> uri ` set [stored_row]"
    by (simp add: stored_row_def)
  note absent = get_partial_entry[of "''w''" "[stored_row]" example_lib T0_plus_30]
  note present = get_partial_entry[of "''u''" "[stored_row]" example_lib T0_plus_30]
  have a: "get example_lib T0_plus_30 [stored_row] ''w'' = None"
    by (rule mp[OF conjunct1[OF absent] w])
  have p: "\<exists>r \<in> set [stored_row]. \<exists>f \<in> {Null, Integer 0, Integer 1}. uri r = ''u'' \<and>
      get example_lib T0_plus_30 [stored_row] ''u'' =
        Some [(''blob'', Payload (pickle_loads example_lib (blob r))),
              (''last_modified'', of_timestamp_opt (last_modified r)),
              (''etag'', of_text_opt (etag r)),
              (''immutable'', of_int_opt (immutable r)),
              (''fresh'', f)]"
    by (rule mp[OF conjunct2[OF present] u])
  show ?thesis
    by (rule conjI[OF w conjI[OF a conjI[OF u p]]])
qed

subsection \<open>Conditional headers\<close>

text \<open>
  C8. For a row whose \<open>etag\<close> is a text or NULL and whose \<open>last_modified\<close> is a timestamp
  or NULL, \<open>conditional_headers\<close> returns the mapping that has \<open>If-None-Match\<close> with the
  entity tag exactly when the tag is not NULL, \<open>If-Modified-Since\<close> with the result of
  \<open>datetime_to_httpdate\<close> exactly when \<open>last_modified\<close> is not NULL, and no other key.
\<close>

theorem conditional_headers_validators:
  assumes "map_of row ''etag'' = Some (of_text_opt e)"
    and "map_of row ''last_modified'' = Some (of_timestamp_opt lm)"
  shows "conditional_headers lib row =
     Inr (\<lambda>k. if k = ''If-Modified-Since''
               then map_option (\<lambda>d. of_text_opt (datetime_to_httpdate lib (Some d))) lm
               else if k = ''If-None-Match'' then map_option Text e
               else None)"
  using assms
  by (cases e; cases lm)
     (auto simp: conditional_headers_def of_text_opt_def of_timestamp_opt_def fun_eq_iff)

theorem conditional_headers_validators_witness:
  "map_of entry_v1 ''etag'' = Some (of_text_opt (Some [CHR 0x22, CHR ''v'', CHR ''1'', CHR 0x22])) \<and>
   map_of entry_v1 ''last_modified'' = Some (of_timestamp_opt None) \<and>
   conditional_headers example_lib entry_v1 =
     Inr [''If-None-Match'' \<mapsto> Text [CHR 0x22, CHR ''v'', CHR ''1'', CHR 0x22]]"
proof -
  have h1: "map_of entry_v1 ''etag'' =
      Some (of_text_opt (Some [CHR 0x22, CHR ''v'', CHR ''1'', CHR 0x22]))"
    by (simp add: entry_v1_def of_text_opt_def)
  have h2: "map_of entry_v1 ''last_modified'' = Some (of_timestamp_opt None)"
    by (simp add: entry_v1_def of_timestamp_opt_def)
  have "conditional_headers example_lib entry_v1 =
     Inr [''If-None-Match'' \<mapsto> Text [CHR 0x22, CHR ''v'', CHR ''1'', CHR 0x22]]"
    using conditional_headers_validators[OF h1 h2, of example_lib]
    by (simp add: fun_eq_iff)
  with h1 h2 show ?thesis by simp
qed

subsection \<open>The round trip of pickle\<close>





subsection \<open>The payload\<close>








subsection \<open>The directive parser and the specification\<close>

lemma split_on_first:
  "split_on c s =
     takeWhile (\<lambda>x. x \<noteq> c) s #
       (case dropWhile (\<lambda>x. x \<noteq> c) s of [] \<Rightarrow> [] | _ # rest \<Rightarrow> split_on c rest)"
  by (induction s) simp_all

lemma split_on_nonempty: "split_on c s \<noteq> []"
  by (subst split_on_first) simp

lemma hd_split_on: "hd (split_on c s) = takeWhile (\<lambda>x. x \<noteq> c) s"
  by (subst split_on_first) simp

lemma parse_directive_amended: "parse_directive d = amended_parse_directive d"
proof (cases "dropWhile (\<lambda>x. x \<noteq> CHR ''='') d")
  case Nil
  have parts: "split_on CHR ''='' d = [takeWhile (\<lambda>x. x \<noteq> CHR ''='') d]"
    by (subst split_on_first) (simp only: Nil list.case)
  show ?thesis
    unfolding parse_directive_def amended_parse_directive_def Let_def
    by (simp only: parts Nil list.case) simp
next
  case (Cons e v)
  have parts: "split_on CHR ''='' d =
      takeWhile (\<lambda>x. x \<noteq> CHR ''='') d # split_on CHR ''='' v"
    by (subst split_on_first) (simp only: Cons list.case)
  have len: "length (split_on CHR ''='' d) > 1"
    using split_on_nonempty[of "CHR ''=''" v] by (simp add: parts)
  have snd_part: "split_on CHR ''='' d ! 1 = takeWhile (\<lambda>x. x \<noteq> CHR ''='') v"
    using split_on_nonempty[of "CHR ''=''" v] hd_split_on[of "CHR ''=''" v]
    by (simp add: parts hd_conv_nth)
  have hd_part: "hd (split_on CHR ''='' d) = takeWhile (\<lambda>x. x \<noteq> CHR ''='') d"
    by (rule hd_split_on)
  show ?thesis
    unfolding parse_directive_def amended_parse_directive_def Let_def
    using len by (simp only: snd_part hd_part Cons if_True list.case)
qed

lemma collect_directives_amended:
  "collect_directives ts m = collect_with amended_parse_directive ts m"
  by (induction ts arbitrary: m)
     (simp_all add: parse_directive_amended split: sum.splits prod.splits)

text \<open>
  C4 as stated fails: for the directive \<open>a=1=2\<close> the code reads the value \<open>1\<close>, the text
  between the first two \<open>=\<close>, where a split on the first \<open>=\<close> gives the value \<open>1=2\<close>,
  which is no integer.
\<close>

theorem parse_cache_control_second_equals:
  "parse_cache_control (Some ''a=1=2'') = Inr [''a'' \<mapsto> DInt 1] \<and>
   spec_parse_cache_control (Some ''a=1=2'') = Inl ValueError"
  by (simp add: string_defs spec_parse_cache_control_def spec_parse_directive_def)

text \<open>
  C4, amended. The parser maps an absent header to the empty mapping, and otherwise
  splits the header on \<open>,\<close> and reads each directive as a name, the trimmed text before
  its first \<open>=\<close>, and an optional value, the text between the first \<open>=\<close> and the next
  \<open>=\<close> or the end, parsed as an integer; a directive without \<open>=\<close> maps its name to
  \<open>True\<close>. The three examples of the specification hold.
\<close>

theorem parse_cache_control_amended:
  "parse_cache_control header = amended_parse_cache_control header \<and>
   parse_cache_control None = Inr Map.empty \<and>
   parse_cache_control (Some ''max-age=100, immutable'') =
     Inr [''max-age'' \<mapsto> DInt 100, ''immutable'' \<mapsto> DTrue] \<and>
   parse_cache_control (Some ''no-store'') = Inr [''no-store'' \<mapsto> DTrue]"
proof -
  have "parse_cache_control header = amended_parse_cache_control header"
    by (cases header)
       (simp_all add: parse_cache_control_def amended_parse_cache_control_def
          collect_directives_amended)
  moreover have "parse_cache_control None = Inr Map.empty"
    by (simp add: parse_cache_control_def)
  moreover have "parse_cache_control (Some ''max-age=100, immutable'') =
     Inr [''max-age'' \<mapsto> DInt 100, ''immutable'' \<mapsto> DTrue]"
    by (simp add: string_defs)
  moreover have "parse_cache_control (Some ''no-store'') = Inr [''no-store'' \<mapsto> DTrue]"
    by (simp add: string_defs)
  ultimately show ?thesis by (intro conjI)
qed

subsection \<open>domain\<close>

lemma like_percent_empty: "sql_like p s \<Longrightarrow> sql_like (CHR ''%'' # p) s"
  by (cases s) simp_all

lemma like_percent_skip: "sql_like (CHR ''%'' # p) s \<Longrightarrow> sql_like (CHR ''%'' # p) (x # s)"
  by simp

lemma like_same_char: "sql_like p s \<Longrightarrow> sql_like (c # p) (c # s)"
  by (simp add: like_percent_empty)

lemma like_percent_any: "sql_like ''%'' s"
  by (induction s) simp_all

lemma like_literal_prefix: "sql_like (s @ ''%'') (s @ rest)"
proof (induction s)
  case Nil
  show ?case using like_percent_any[of rest] by simp
next
  case (Cons c s)
  have "sql_like (c # (s @ ''%'')) (c # (s @ rest))"
    using Cons.IH by (rule like_same_char)
  then show ?case by simp
qed

lemma like_percent_skips:
  "sql_like (CHR ''%'' # p) s \<Longrightarrow> sql_like (CHR ''%'' # p) (before @ s)"
proof (induction before)
  case Nil
  then show ?case by simp
next
  case (Cons x before)
  from Cons.IH[OF Cons.prems] have "sql_like (CHR ''%'' # p) (x # (before @ s))"
    by (rule like_percent_skip)
  then show ?case by simp
qed

lemma like_sublist: "sublist s u \<Longrightarrow> sql_like (like_pattern s) u"
proof -
  assume "sublist s u"
  then obtain before rest where u: "u = before @ s @ rest"
    by (auto simp: sublist_def)
  have "sql_like (CHR ''%'' # (s @ ''%'')) (s @ rest)"
    using like_literal_prefix[of s rest] by (rule like_percent_empty)
  then have "sql_like (CHR ''%'' # (s @ ''%'')) (before @ (s @ rest))"
    by (rule like_percent_skips)
  then show ?thesis by (simp add: like_pattern_def u)
qed

lemma c_string_id: "CHR 0x00 \<notin> set s \<Longrightarrow> c_string s = s"
  unfolding c_string_def by (rule takeWhile_eq_all_conv[THEN iffD2]) auto

lemma like_pattern_no_nul:
  assumes "sublist s u" and "CHR 0x00 \<notin> set u"
  shows "c_string (like_pattern s) = like_pattern s"
proof -
  from assms(1) have "set s \<subseteq> set u"
    by (rule set_mono_sublist)
  with assms(2) have "CHR 0x00 \<notin> set (like_pattern s)"
    by (auto simp: like_pattern_def)
  then show ?thesis by (rule c_string_id)
qed

text \<open>
  C9 as stated fails: \<open>A.COM\<close> is no substring of \<open>http://a.com/1\<close>, yet the query for
  \<open>A.COM\<close> returns the row of that uri, because LIKE compares ASCII letters without
  regard to case.
\<close>

theorem domain_ignores_case:
  "\<not> sublist ''A.COM'' (uri row_a1) \<and>
   domain example_lib [row_a1] ''A.COM'' 25 = Inr [select_star example_lib row_a1]"
proof -
  have "\<not> sublist ''A.COM'' (uri row_a1)"
    by (simp add: row_a1_def sublist_Cons_right)
  moreover have "domain_rows [row_a1] ''A.COM'' 25 = [row_a1]"
    by (simp add: domain_rows_def row_a1_def like_pattern_def c_string_def sql_limit_def
        ascii_lower_def)
  then have "domain example_lib [row_a1] ''A.COM'' 25 = Inr [select_star example_lib row_a1]"
    by (simp add: domain_def fits_int64_def utf8_length_def like_pattern_def)
  ultimately show ?thesis by (rule conjI)
qed

text \<open>
  C9, amended. For a limit \<open>n\<close> that fits 64 bits and a pattern \<open>%s%\<close> of at most 50000
  bytes (or an empty table), \<open>domain\<close> returns the stored rows whose uri matches the
  pattern \<open>%s%\<close> under LIKE, ordered by \<open>http_date\<close> ascending and cut to the first \<open>n\<close>
  when \<open>n\<close> is not negative, all of them when it is; the default of \<open>n\<close> is 25. LIKE
  compares ASCII letters without regard to case, takes \<open>_\<close> and \<open>%\<close> in \<open>s\<close> for one and
  for any run of characters, and reads up to the first NUL. A row whose uri has no NUL
  and contains \<open>s\<close> matches; a row that does not match never appears.
\<close>

theorem domain_like:
  assumes "fits_int64 (Some n)"
    and "t = [] \<or> utf8_length (like_pattern s) \<le> 50000"
  shows "(\<exists>matching.
            mset matching =
              mset (filter (\<lambda>r. sql_like (c_string (like_pattern s)) (c_string (uri r))) t) \<and>
            sorted (map (\<lambda>r. timestamp_key (http_date r)) matching) \<and>
            domain lib t s n =
              Inr (map (select_star lib) (if n < 0 then matching else take (nat n) matching))) \<and>
         domain_default lib t s = domain lib t s 25 \<and>
         (r \<in> set t \<and> CHR 0x00 \<notin> set (uri r) \<and> sublist s (uri r) \<longrightarrow>
            sql_like (c_string (like_pattern s)) (c_string (uri r)))"
proof -
  let ?match = "\<lambda>r. sql_like (c_string (like_pattern s)) (c_string (uri r))"
  let ?all = "sort_key (\<lambda>r. timestamp_key (http_date r)) (filter ?match t)"
  have m: "mset ?all = mset (filter ?match t)"
    by simp
  have o: "sorted (map (\<lambda>r. timestamp_key (http_date r)) ?all)"
    by (rule sorted_sort_key)
  have "\<not> (t \<noteq> [] \<and> utf8_length (like_pattern s) > 50000)"
    using assms(2) by auto
  with assms(1) have d: "domain lib t s n =
      Inr (map (select_star lib) (if n < 0 then ?all else take (nat n) ?all))"
    by (simp add: domain_def domain_rows_def sql_limit_def)
  from m o d have first: "\<exists>matching.
      mset matching = mset (filter ?match t) \<and>
      sorted (map (\<lambda>r. timestamp_key (http_date r)) matching) \<and>
      domain lib t s n =
        Inr (map (select_star lib) (if n < 0 then matching else take (nat n) matching))"
    by (intro exI conjI)
  have second: "domain_default lib t s = domain lib t s 25"
    by (simp add: domain_default_def)
  have third: "r \<in> set t \<and> CHR 0x00 \<notin> set (uri r) \<and> sublist s (uri r) \<longrightarrow>
      sql_like (c_string (like_pattern s)) (c_string (uri r))"
  proof
    assume a: "r \<in> set t \<and> CHR 0x00 \<notin> set (uri r) \<and> sublist s (uri r)"
    then have "c_string (uri r) = uri r"
      by (simp add: c_string_id)
    moreover from a have "c_string (like_pattern s) = like_pattern s"
      by (intro like_pattern_no_nul[of s "uri r"]) simp_all
    moreover from a have "sql_like (like_pattern s) (uri r)"
      by (simp add: like_sublist)
    ultimately show "sql_like (c_string (like_pattern s)) (c_string (uri r))"
      by simp
  qed
  from first second third show ?thesis by (intro conjI)
qed

lemma domain_rows_example: "domain_rows three_rows ''a.com'' 25 = [row_a1, row_a2]"
  by (simp add: domain_rows_def three_rows_def row_a1_def row_a2_def row_b1_def like_pattern_def
      c_string_def sql_limit_def timestamp_key_def ascii_lower_def example_defs)

theorem domain_like_witness:
  "fits_int64 (Some 25) \<and>
   (three_rows = [] \<or> utf8_length (like_pattern ''a.com'') \<le> 50000) \<and>
   row_a1 \<in> set three_rows \<and> CHR 0x00 \<notin> set (uri row_a1) \<and> sublist ''a.com'' (uri row_a1) \<and>
   sql_like (c_string (like_pattern ''a.com'')) (c_string (uri row_a1)) \<and>
   (\<exists>matching.
      mset matching =
        mset (filter (\<lambda>r. sql_like (c_string (like_pattern ''a.com'')) (c_string (uri r)))
                three_rows) \<and>
      sorted (map (\<lambda>r. timestamp_key (http_date r)) matching) \<and>
      domain example_lib three_rows ''a.com'' 25 =
        Inr (map (select_star example_lib)
               (if (25 :: int) < 0 then matching else take (nat 25) matching))) \<and>
   domain_default example_lib three_rows ''a.com'' =
     Inr [select_star example_lib row_a1, select_star example_lib row_a2]"
proof -
  have h1: "fits_int64 (Some 25)"
    by (simp add: fits_int64_def)
  have h2: "three_rows = [] \<or> utf8_length (like_pattern ''a.com'') \<le> 50000"
    by (simp add: utf8_length_def like_pattern_def)
  have h3: "row_a1 \<in> set three_rows"
    by (simp add: three_rows_def)
  have h4: "CHR 0x00 \<notin> set (uri row_a1)"
    by (simp add: row_a1_def)
  have h5: "sublist ''a.com'' (uri row_a1)"
    by (simp add: row_a1_def sublist_Cons_right)
  note r = domain_like[OF h1 h2, where lib = example_lib and r = row_a1]
  have c1: "sql_like (c_string (like_pattern ''a.com'')) (c_string (uri row_a1))"
    by (rule mp[OF conjunct2[OF conjunct2[OF r]] conjI[OF h3 conjI[OF h4 h5]]])
  have c2: "domain_default example_lib three_rows ''a.com'' =
      Inr [select_star example_lib row_a1, select_star example_lib row_a2]"
    unfolding conjunct1[OF conjunct2[OF r]]
    by (simp add: domain_def domain_rows_example h1 utf8_length_def like_pattern_def)
  show ?thesis
    by (rule conjI[OF h1 conjI[OF h2 conjI[OF h3 conjI[OF h4 conjI[OF h5 conjI[OF c1
          conjI[OF conjunct1[OF r] c2]]]]]]])
qed

end
